theory Spec2Isabelle
  imports Complex_Main "HOL-Library.Sublist"
begin

section \<open>The float64 values of the data frame\<close>

text \<open>
  Every numeric cell of the data frame of \<^verbatim>\<open>gg.py\<close> is a float64. A missing or
  unparsable cell is the value NaN (\<^verbatim>\<open>pd.to_numeric(..., errors='coerce')\<close>): the code
  has no other marker for "undefined". The model keeps the special values of float64
  apart and takes the finite ones as real numbers:
  \<^item> arithmetic on finite values is exact: rounding, overflow and underflow are not in
    the model;
  \<^item> zero has no sign: a finite nonzero number divided by zero is the infinity with the
    sign of the numerator, which is what numpy gives for the divisor \<^verbatim>\<open>+0.0\<close>
    (the result of \<^verbatim>\<open>1 - 1.0\<close>).
\<close>

datatype float64 = NaN | PosInf | NegInf | Finite real

fun fneg :: "float64 \<Rightarrow> float64" where
  "fneg NaN = NaN"
| "fneg PosInf = NegInf"
| "fneg NegInf = PosInf"
| "fneg (Finite x) = Finite (- x)"

fun fadd :: "float64 \<Rightarrow> float64 \<Rightarrow> float64" where
  "fadd NaN v = NaN"
| "fadd u NaN = NaN"
| "fadd PosInf NegInf = NaN"
| "fadd NegInf PosInf = NaN"
| "fadd PosInf v = PosInf"
| "fadd NegInf v = NegInf"
| "fadd (Finite x) PosInf = PosInf"
| "fadd (Finite x) NegInf = NegInf"
| "fadd (Finite x) (Finite y) = Finite (x + y)"

definition fsub :: "float64 \<Rightarrow> float64 \<Rightarrow> float64" where
  "fsub u v = fadd u (fneg v)"

text \<open>The product of an infinity and zero is NaN; otherwise the signs multiply.\<close>

fun fmul :: "float64 \<Rightarrow> float64 \<Rightarrow> float64" where
  "fmul NaN v = NaN"
| "fmul u NaN = NaN"
| "fmul (Finite x) (Finite y) = Finite (x * y)"
| "fmul PosInf PosInf = PosInf"
| "fmul NegInf NegInf = PosInf"
| "fmul PosInf NegInf = NegInf"
| "fmul NegInf PosInf = NegInf"
| "fmul PosInf (Finite y) = (if y = 0 then NaN else if 0 < y then PosInf else NegInf)"
| "fmul NegInf (Finite y) = (if y = 0 then NaN else if 0 < y then NegInf else PosInf)"
| "fmul (Finite x) PosInf = (if x = 0 then NaN else if 0 < x then PosInf else NegInf)"
| "fmul (Finite x) NegInf = (if x = 0 then NaN else if 0 < x then NegInf else PosInf)"

text \<open>
  numpy and pandas do not raise on a division by zero: \<^verbatim>\<open>0/0\<close> is NaN and
  \<^verbatim>\<open>x/0\<close> is an infinity.
\<close>

fun fdiv :: "float64 \<Rightarrow> float64 \<Rightarrow> float64" where
  "fdiv NaN v = NaN"
| "fdiv u NaN = NaN"
| "fdiv (Finite x) (Finite y) =
     (if y = 0 then (if x = 0 then NaN else if 0 < x then PosInf else NegInf)
      else Finite (x / y))"
| "fdiv (Finite x) PosInf = Finite 0"
| "fdiv (Finite x) NegInf = Finite 0"
| "fdiv PosInf (Finite y) = (if y < 0 then NegInf else PosInf)"
| "fdiv NegInf (Finite y) = (if y < 0 then PosInf else NegInf)"
| "fdiv PosInf v = NaN"
| "fdiv NegInf v = NaN"

text \<open>\<^verbatim>\<open>x**2\<close> is the product of \<open>x\<close> with itself.\<close>

definition fsquare :: "float64 \<Rightarrow> float64" where
  "fsquare u = fmul u u"

text \<open>
  \<^verbatim>\<open>.pow(0.5)\<close>: the square root, NaN on a negative argument (numpy has no complex
  result for a float64 array).
\<close>

fun fpow_half :: "float64 \<Rightarrow> float64" where
  "fpow_half NaN = NaN"
| "fpow_half PosInf = PosInf"
| "fpow_half NegInf = NaN"
| "fpow_half (Finite x) = (if x < 0 then NaN else Finite (sqrt x))"

fun fcos :: "float64 \<Rightarrow> float64" where
  "fcos (Finite x) = Finite (cos x)"
| "fcos u = NaN"


text \<open>\<^verbatim>\<open>np.radians\<close>: degrees times \<open>\<pi>/180\<close>.\<close>

definition radians :: "float64 \<Rightarrow> float64" where
  "radians u = fmul u (Finite (pi / 180))"

text \<open>The comparisons of float64: every comparison with NaN is false.\<close>

fun flt :: "float64 \<Rightarrow> float64 \<Rightarrow> bool" where
  "flt NaN v = False"
| "flt u NaN = False"
| "flt (Finite x) (Finite y) = (x < y)"
| "flt u PosInf = (u \<noteq> PosInf)"
| "flt NegInf v = (v \<noteq> NegInf)"
| "flt u v = False"

fun fle :: "float64 \<Rightarrow> float64 \<Rightarrow> bool" where
  "fle NaN v = False"
| "fle u NaN = False"
| "fle (Finite x) (Finite y) = (x \<le> y)"
| "fle u PosInf = True"
| "fle NegInf v = True"
| "fle u v = False"

definition fgt :: "float64 \<Rightarrow> float64 \<Rightarrow> bool" where
  "fgt u v = flt v u"

definition fge :: "float64 \<Rightarrow> float64 \<Rightarrow> bool" where
  "fge u v = fle v u"

section \<open>The derived columns\<close>

text \<open>
  Line 117, the column \<^verbatim>\<open>a\<close>:
  \<^verbatim>\<open>df_filtered['q_au_1'] / (1 - df_filtered['e'])\<close>, cell by cell.
\<close>

definition a_of :: "float64 \<Rightarrow> float64 \<Rightarrow> float64" where
  "a_of q ecc = fdiv q (fsub (Finite 1) ecc)"

text \<open>
  Line 118, the column \<^verbatim>\<open>Tisserand\<close>:
  \<^verbatim>\<open>3 / a + 2 * ((1 - e**2) * a / 5.2).pow(0.5) * np.cos(np.radians(i_deg))\<close>.
\<close>

definition Tisserand_of :: "float64 \<Rightarrow> float64 \<Rightarrow> float64 \<Rightarrow> float64" where
  "Tisserand_of av ecc inc =
     fadd (fdiv (Finite 3) av)
          (fmul (fmul (Finite 2)
                      (fpow_half (fdiv (fmul (fsub (Finite 1) (fsquare ecc)) av) (Finite 5.2))))
                (fcos (radians inc)))"

text \<open>
  Line 230, the lambda applied to every cell of the column \<^verbatim>\<open>Tisserand\<close>:
  \<^verbatim>\<open>"Encke-type" if t > 3 else ("Jupiter-family" if 2 < t <= 3 else "Halley-type")\<close>.
\<close>

definition Family_of :: "float64 \<Rightarrow> string" where
  "Family_of t =
     (if fgt t (Finite 3) then ''Encke-type''
      else if flt (Finite 2) t \<and> fle t (Finite 3) then ''Jupiter-family''
      else ''Halley-type'')"

section \<open>Loading the catalogue\<close>

text \<open>
  The response of the catalogue is a JSON array of objects whose values are strings;
  \<^verbatim>\<open>pd.DataFrame\<close> makes a column of every key that occurs in some object and leaves a
  cell missing where an object has no such key. A row of the frame keeps the columns the
  program reads: the name in \<^verbatim>\<open>object\<close> and the nine columns it turns into numbers
  (the column \<^verbatim>\<open>e\<close> is the field \<open>col_e\<close>).
\<close>

type_synonym json_object = "string \<rightharpoonup> string"

record comet =
  object :: "string option"
  col_e :: float64
  i_deg :: float64
  w_deg :: float64
  node_deg :: float64
  q_au_1 :: float64
  q_au_2 :: float64
  p_yr :: float64
  moid_au :: float64
  epoch_tdb :: float64

datatype py_error = KeyError string | IndexError

definition numeric_columns :: "string list" where
  "numeric_columns =
     [''e'', ''i_deg'', ''w_deg'', ''node_deg'', ''q_au_1'', ''q_au_2'', ''p_yr'', ''moid_au'']"

text \<open>
  \<^verbatim>\<open>pd.to_numeric(..., errors='coerce')\<close> on one cell. The number syntax pandas
  accepts is the parameter \<open>parse\<close>, which is \<open>None\<close> on a text that is no number;
  a missing cell and such a text both become NaN.
\<close>

definition to_numeric :: "(string \<Rightarrow> float64 option) \<Rightarrow> string option \<Rightarrow> float64" where
  "to_numeric parse c =
     (case c of None \<Rightarrow> NaN
      | Some s \<Rightarrow> (case parse s of None \<Rightarrow> NaN | Some v \<Rightarrow> v))"

definition has_column :: "json_object list \<Rightarrow> string \<Rightarrow> bool" where
  "has_column js c = list_ex (\<lambda>j. j c \<noteq> None) js"

definition to_comet :: "(string \<Rightarrow> float64 option) \<Rightarrow> json_object \<Rightarrow> comet" where
  "to_comet parse j =
     \<lparr> object = j ''object'',
       col_e = to_numeric parse (j ''e''),
       i_deg = to_numeric parse (j ''i_deg''),
       w_deg = to_numeric parse (j ''w_deg''),
       node_deg = to_numeric parse (j ''node_deg''),
       q_au_1 = to_numeric parse (j ''q_au_1''),
       q_au_2 = to_numeric parse (j ''q_au_2''),
       p_yr = to_numeric parse (j ''p_yr''),
       moid_au = to_numeric parse (j ''moid_au''),
       epoch_tdb = to_numeric parse (j ''epoch_tdb'') \<rparr>"

text \<open>
  \<^verbatim>\<open>fetch_comet_data\<close>, lines 83 to 96, on the status code and the decoded body of the
  response. \<^verbatim>\<open>df[col]\<close> raises KeyError for a column that no object has; the loop
  meets the columns in the order of \<open>numeric_columns\<close>, then \<^verbatim>\<open>epoch_tdb\<close>. Any
  other status gives the empty frame.
\<close>

definition fetch_comet_data ::
  "(string \<Rightarrow> float64 option) \<Rightarrow> nat \<Rightarrow> json_object list \<Rightarrow> py_error + comet list" where
  "fetch_comet_data parse status_code js =
     (if status_code = 200 then
        (case filter (\<lambda>c. \<not> has_column js c) (numeric_columns @ [''epoch_tdb'']) of
           [] \<Rightarrow> Inr (map (to_comet parse) js)
         | c # _ \<Rightarrow> Inl (KeyError c))
      else Inr [])"

section \<open>Filtering and derivation\<close>

text \<open>
  Line 110: \<^verbatim>\<open>df[(df['e'] >= e_min) & (df['e'] <= e_max)]\<close>. The two comparisons give
  two boolean columns, \<^verbatim>\<open>&\<close> joins them cell by cell, and indexing with the mask keeps
  the rows whose cell is true.
\<close>

definition e_mask :: "float64 \<Rightarrow> float64 \<Rightarrow> comet list \<Rightarrow> bool list" where
  "e_mask e_min e_max df =
     map2 (\<and>) (map (\<lambda>c. fge (col_e c) e_min) df) (map (\<lambda>c. fle (col_e c) e_max) df)"

definition boolean_index :: "'r list \<Rightarrow> bool list \<Rightarrow> 'r list" where
  "boolean_index df msk = map fst (filter snd (zip df msk))"

text \<open>
  Lines 113 to 118 add four columns to the filtered frame. The calendar arithmetic of
  pandas is a parameter: \<open>to_date x\<close> stands for
  \<^verbatim>\<open>pd.to_datetime('2000-01-01') + pd.to_timedelta(x, unit='D')\<close> and \<open>year\<close> for
  \<^verbatim>\<open>.dt.year\<close>. The column \<^verbatim>\<open>a\<close> is the field \<open>col_a\<close>.
\<close>

record ('d, 'y) derived =
  raw :: comet
  discovery_date :: 'd
  discovery_year :: 'y
  col_a :: float64
  Tisserand :: float64

definition derive_row :: "(float64 \<Rightarrow> 'd) \<Rightarrow> ('d \<Rightarrow> 'y) \<Rightarrow> comet \<Rightarrow> ('d, 'y) derived" where
  "derive_row to_date year c =
     (let dd = to_date (epoch_tdb c);
          dy = year dd;
          av = a_of (q_au_1 c) (col_e c);
          tv = Tisserand_of av (col_e c) (i_deg c)
      in \<lparr> raw = c, discovery_date = dd, discovery_year = dy, col_a = av, Tisserand = tv \<rparr>)"

definition df_filtered ::
  "(float64 \<Rightarrow> 'd) \<Rightarrow> ('d \<Rightarrow> 'y) \<Rightarrow> float64 \<Rightarrow> float64 \<Rightarrow> comet list \<Rightarrow> ('d, 'y) derived list" where
  "df_filtered to_date year e_min e_max df =
     map (derive_row to_date year) (boolean_index df (e_mask e_min e_max df))"

text \<open>Line 230 adds the column \<^verbatim>\<open>Family\<close> to the same frame.\<close>

record ('d, 'y) classified =
  derived_row :: "('d, 'y) derived"
  Family :: string

definition add_Family :: "('d, 'y) derived list \<Rightarrow> ('d, 'y) classified list" where
  "add_Family dfs = map (\<lambda>d. \<lparr> derived_row = d, Family = Family_of (Tisserand d) \<rparr>) dfs"



section \<open>The orbit in three dimensions\<close>











text \<open>
  The rows the specification keeps: the eccentricity is defined and lies in the
  inclusive range.
\<close>

definition spec_retained :: "float64 \<Rightarrow> float64 \<Rightarrow> comet \<Rightarrow> bool" where
  "spec_retained e_min e_max c =
     (col_e c \<noteq> NaN \<and> fle e_min (col_e c) \<and> fle (col_e c) e_max)"

section \<open>NaN in the arithmetic\<close>

lemma fadd_NaN_right: "fadd u NaN = NaN"
  by (cases u) simp_all

lemma fmul_NaN_right: "fmul u NaN = NaN"
  by (cases u) simp_all

lemma fdiv_NaN_right: "fdiv u NaN = NaN"
  by (cases u) simp_all

lemma fle_not_NaN: "fle u v \<Longrightarrow> u \<noteq> NaN \<and> v \<noteq> NaN"
  by (cases u; cases v) simp_all

section \<open>The family of a comet\<close>

text \<open>
  C1. The claim: a row whose Tisserand value is undefined gets an undefined family,
  never one of the three categories. The lambda of line 230 has no case for NaN: both
  comparisons are false on it and the last branch answers. Evaluated here on a frame of
  one row whose inclination is missing: the row passes the filter, its Tisserand value
  is NaN, and its family is \<^verbatim>\<open>Halley-type\<close>.
\<close>

theorem Family_of_NaN_is_Halley:
  "Family_of NaN = ''Halley-type'' \<and>
   map Tisserand (df_filtered to_date year (Finite 0) (Finite 1)
     [\<lparr> object = Some ''C/X'', col_e = Finite (1 / 2), i_deg = NaN, w_deg = Finite 0,
        node_deg = Finite 0, q_au_1 = Finite 1, q_au_2 = Finite 3, p_yr = Finite 5,
        moid_au = NaN, epoch_tdb = Finite 0 \<rparr>]) = [NaN] \<and>
   map Family (add_Family (df_filtered to_date year (Finite 0) (Finite 1)
     [\<lparr> object = Some ''C/X'', col_e = Finite (1 / 2), i_deg = NaN, w_deg = Finite 0,
        node_deg = Finite 0, q_au_1 = Finite 1, q_au_2 = Finite 3, p_yr = Finite 5,
        moid_au = NaN, epoch_tdb = Finite 0 \<rparr>])) = [''Halley-type'']"
  by (simp add: add_Family_def df_filtered_def boolean_index_def e_mask_def fge_def
      derive_row_def Tisserand_of_def radians_def a_of_def fsub_def fsquare_def
      Family_of_def fgt_def Let_def)

text \<open>
  C3. For every finite Tisserand value \<open>t\<close> the family is \<^verbatim>\<open>Encke-type\<close> exactly
  when \<open>3 < t\<close>, \<^verbatim>\<open>Jupiter-family\<close> exactly when \<open>2 < t \<le> 3\<close> and
  \<^verbatim>\<open>Halley-type\<close> exactly when \<open>t \<le> 2\<close>; the value 3 is Jupiter-family and the
  value 2 is Halley-type. The three conditions exclude each other and cover the reals,
  so every finite value has exactly one of the three families.
\<close>

theorem Family_of_boundaries:
  "(Family_of (Finite t) = ''Encke-type'' \<longleftrightarrow> 3 < t) \<and>
   (Family_of (Finite t) = ''Jupiter-family'' \<longleftrightarrow> 2 < t \<and> t \<le> 3) \<and>
   (Family_of (Finite t) = ''Halley-type'' \<longleftrightarrow> t \<le> 2) \<and>
   Family_of (Finite 3) = ''Jupiter-family'' \<and>
   Family_of (Finite 2) = ''Halley-type''"
  by (simp add: Family_of_def fgt_def)

theorem Family_of_boundaries_witness:
  "Family_of (Finite 3) = ''Jupiter-family'' \<and> Family_of (Finite 3.0001) = ''Encke-type'' \<and>
   Family_of (Finite 2) = ''Halley-type'' \<and> Family_of (Finite 2.0001) = ''Jupiter-family''"
  using Family_of_boundaries [of 3] Family_of_boundaries [of "3.0001"]
    Family_of_boundaries [of 2] Family_of_boundaries [of "2.0001"]
  by simp

section \<open>The semi-major axis and the Tisserand parameter\<close>







section \<open>The filter on the eccentricity\<close>

lemma boolean_index_map2:
  "boolean_index df (map2 (\<and>) (map f df) (map g df)) = filter (\<lambda>c. f c \<and> g c) df"
  by (induction df) (simp_all add: boolean_index_def)

lemma raw_df_filtered:
  "map raw (df_filtered to_date year e_min e_max df) =
     filter (\<lambda>c. fle e_min (col_e c) \<and> fle (col_e c) e_max) df"
  by (simp add: df_filtered_def e_mask_def boolean_index_map2 fge_def derive_row_def
      comp_def Let_def)

text \<open>
  C5. For every frame and every range, the rows of the filtered frame are exactly the
  rows of the input whose eccentricity is defined and lies in the inclusive range, in
  the order of the input: the catalogue columns of the output are the input filtered by
  that condition, a subsequence of the input. A row with a missing eccentricity or one
  outside the range is in no position of the output.
\<close>

theorem df_filtered_keeps_exactly:
  "map raw (df_filtered to_date year e_min e_max df) = filter (spec_retained e_min e_max) df
   \<and> subseq (map raw (df_filtered to_date year e_min e_max df)) df"
proof -
  have "(\<lambda>c. fle e_min (col_e c) \<and> fle (col_e c) e_max) = spec_retained e_min e_max"
    by (auto simp add: spec_retained_def fun_eq_iff dest: fle_not_NaN)
  then show ?thesis
    by (simp add: raw_df_filtered)
qed

theorem df_filtered_keeps_exactly_witness:
  "map raw (df_filtered (\<lambda>v. ()) (\<lambda>d. ()) (Finite 0) (Finite 1)
     [\<lparr> object = Some ''A'', col_e = Finite 0.1, i_deg = NaN, w_deg = NaN, node_deg = NaN,
        q_au_1 = NaN, q_au_2 = NaN, p_yr = NaN, moid_au = NaN, epoch_tdb = NaN \<rparr>,
      \<lparr> object = Some ''B'', col_e = Finite 0.5, i_deg = NaN, w_deg = NaN, node_deg = NaN,
        q_au_1 = NaN, q_au_2 = NaN, p_yr = NaN, moid_au = NaN, epoch_tdb = NaN \<rparr>,
      \<lparr> object = Some ''C'', col_e = Finite 1.2, i_deg = NaN, w_deg = NaN, node_deg = NaN,
        q_au_1 = NaN, q_au_2 = NaN, p_yr = NaN, moid_au = NaN, epoch_tdb = NaN \<rparr>,
      \<lparr> object = Some ''D'', col_e = NaN, i_deg = NaN, w_deg = NaN, node_deg = NaN,
        q_au_1 = NaN, q_au_2 = NaN, p_yr = NaN, moid_au = NaN, epoch_tdb = NaN \<rparr>])
   = [\<lparr> object = Some ''A'', col_e = Finite 0.1, i_deg = NaN, w_deg = NaN, node_deg = NaN,
        q_au_1 = NaN, q_au_2 = NaN, p_yr = NaN, moid_au = NaN, epoch_tdb = NaN \<rparr>,
      \<lparr> object = Some ''B'', col_e = Finite 0.5, i_deg = NaN, w_deg = NaN, node_deg = NaN,
        q_au_1 = NaN, q_au_2 = NaN, p_yr = NaN, moid_au = NaN, epoch_tdb = NaN \<rparr>]"
  using df_filtered_keeps_exactly [of "\<lambda>v. ()" "\<lambda>d. ()" "Finite 0" "Finite 1"
     "[\<lparr> object = Some ''A'', col_e = Finite 0.1, i_deg = NaN, w_deg = NaN, node_deg = NaN,
        q_au_1 = NaN, q_au_2 = NaN, p_yr = NaN, moid_au = NaN, epoch_tdb = NaN \<rparr>,
      \<lparr> object = Some ''B'', col_e = Finite 0.5, i_deg = NaN, w_deg = NaN, node_deg = NaN,
        q_au_1 = NaN, q_au_2 = NaN, p_yr = NaN, moid_au = NaN, epoch_tdb = NaN \<rparr>,
      \<lparr> object = Some ''C'', col_e = Finite 1.2, i_deg = NaN, w_deg = NaN, node_deg = NaN,
        q_au_1 = NaN, q_au_2 = NaN, p_yr = NaN, moid_au = NaN, epoch_tdb = NaN \<rparr>,
      \<lparr> object = Some ''D'', col_e = NaN, i_deg = NaN, w_deg = NaN, node_deg = NaN,
        q_au_1 = NaN, q_au_2 = NaN, p_yr = NaN, moid_au = NaN, epoch_tdb = NaN \<rparr>]"]
  by (simp add: spec_retained_def)

section \<open>Reruns of the script\<close>




section \<open>Missing and unparsable cells\<close>

lemma to_numeric_cases:
  "to_numeric parse None = NaN"
  "parse s = None \<Longrightarrow> to_numeric parse (Some s) = NaN"
  "parse s = Some v \<Longrightarrow> to_numeric parse (Some s) = v"
  by (simp_all add: to_numeric_def)

lemma fetch_ok:
  assumes "\<forall>c \<in> set (numeric_columns @ [''epoch_tdb'']). has_column js c"
  shows "fetch_comet_data parse 200 js = Inr (map (to_comet parse) js)"
proof -
  from assms have "filter (\<lambda>c. \<not> has_column js c) (numeric_columns @ [''epoch_tdb'']) = []"
    by (simp only: filter_empty_conv) blast
  then show ?thesis
    by (simp add: fetch_comet_data_def)
qed

text \<open>
  C8, as stated: a missing numeric field never aborts the processing. A response of one
  object that has no \<^verbatim>\<open>moid_au\<close> gives a frame without that column, and
  \<^verbatim>\<open>df['moid_au']\<close> in the loop of line 90 raises KeyError.
\<close>

theorem fetch_missing_column_counterexample:
  "fetch_comet_data (\<lambda>s. if s = ''0.5'' then Some (Finite (1 / 2)) else None) 200
     [map_of [(''object'', ''1P/Halley''), (''e'', ''0.5''), (''i_deg'', ''0.5''),
              (''w_deg'', ''0.5''), (''node_deg'', ''0.5''), (''q_au_1'', ''0.5''),
              (''q_au_2'', ''0.5''), (''p_yr'', ''0.5''), (''epoch_tdb'', ''0.5'')]]
   = Inl (KeyError ''moid_au'')"
  by (simp add: fetch_comet_data_def numeric_columns_def has_column_def)

text \<open>
  C8, amended. Provided each of the nine numeric columns occurs in at least one object
  of the response: the load returns a frame with one row for each object; every numeric
  cell is \<^verbatim>\<open>to_numeric\<close> of the cell of its own column in its own object, which is NaN
  when the cell is missing or unparsable and the parsed number otherwise, never another
  number; and each derived column of a row is its own formula on the cells it reads, so
  that a missing inclination makes the Tisserand value NaN and leaves the semi-major
  axis, the date and the year of that row as they are.
\<close>

theorem fetch_isolates_fields:
  assumes "\<forall>c \<in> set (numeric_columns @ [''epoch_tdb'']). has_column js c"
  shows "(\<exists>df. fetch_comet_data parse 200 js = Inr df \<and> length df = length js \<and>
            (\<forall>k<length js.
               col_e (df ! k) = to_numeric parse ((js ! k) ''e'') \<and>
               i_deg (df ! k) = to_numeric parse ((js ! k) ''i_deg'') \<and>
               w_deg (df ! k) = to_numeric parse ((js ! k) ''w_deg'') \<and>
               node_deg (df ! k) = to_numeric parse ((js ! k) ''node_deg'') \<and>
               q_au_1 (df ! k) = to_numeric parse ((js ! k) ''q_au_1'') \<and>
               q_au_2 (df ! k) = to_numeric parse ((js ! k) ''q_au_2'') \<and>
               p_yr (df ! k) = to_numeric parse ((js ! k) ''p_yr'') \<and>
               moid_au (df ! k) = to_numeric parse ((js ! k) ''moid_au'') \<and>
               epoch_tdb (df ! k) = to_numeric parse ((js ! k) ''epoch_tdb''))) \<and>
         to_numeric parse None = NaN \<and>
         (parse s = None \<longrightarrow> to_numeric parse (Some s) = NaN) \<and>
         (parse s = Some v \<longrightarrow> to_numeric parse (Some s) = v) \<and>
         raw (derive_row to_date year c) = c \<and>
         discovery_date (derive_row to_date year c) = to_date (epoch_tdb c) \<and>
         discovery_year (derive_row to_date year c) = year (to_date (epoch_tdb c)) \<and>
         col_a (derive_row to_date year c) = a_of (q_au_1 c) (col_e c) \<and>
         Tisserand (derive_row to_date year c) =
           Tisserand_of (a_of (q_au_1 c) (col_e c)) (col_e c) (i_deg c) \<and>
         Tisserand (derive_row to_date year (c\<lparr>i_deg := NaN\<rparr>)) = NaN \<and>
         col_a (derive_row to_date year (c\<lparr>i_deg := NaN\<rparr>)) = col_a (derive_row to_date year c)"
proof -
  have "Tisserand_of av ecc NaN = NaN" for av ecc
    by (simp add: Tisserand_of_def radians_def fmul_NaN_right fadd_NaN_right)
  then show ?thesis
    using fetch_ok [OF assms, of parse]
    by (simp add: to_comet_def to_numeric_cases derive_row_def Let_def)
qed

theorem fetch_isolates_fields_witness:
  "list_all (has_column [map_of [(''object'', ''1P/Halley''), (''e'', ''0.5''), (''i_deg'', ''n/a''),
                (''w_deg'', ''0.5''), (''node_deg'', ''0.5''), (''q_au_1'', ''0.5''),
                (''q_au_2'', ''0.5''), (''p_yr'', ''0.5''), (''moid_au'', ''0.5''),
                (''epoch_tdb'', ''0.5'')],
        map_of [(''object'', ''C/X''), (''e'', ''0.5'')]]) (numeric_columns @ [''epoch_tdb'']) \<and>
   (\<exists>df. fetch_comet_data (\<lambda>s. if s = ''0.5'' then Some (Finite (1 / 2)) else None) 200 [map_of [(''object'', ''1P/Halley''), (''e'', ''0.5''), (''i_deg'', ''n/a''),
                (''w_deg'', ''0.5''), (''node_deg'', ''0.5''), (''q_au_1'', ''0.5''),
                (''q_au_2'', ''0.5''), (''p_yr'', ''0.5''), (''moid_au'', ''0.5''),
                (''epoch_tdb'', ''0.5'')],
        map_of [(''object'', ''C/X''), (''e'', ''0.5'')]] = Inr df \<and> length df = 2 \<and>
      col_e (df ! 0) = Finite (1 / 2) \<and> i_deg (df ! 0) = NaN \<and>
      col_e (df ! 1) = Finite (1 / 2) \<and> q_au_1 (df ! 1) = NaN) \<and>
   to_numeric (\<lambda>s. if s = ''0.5'' then Some (Finite (1 / 2)) else None) (Some ''n/a'') = NaN \<and>
   to_numeric (\<lambda>s. if s = ''0.5'' then Some (Finite (1 / 2)) else None) (Some ''0.5'')
     = Finite (1 / 2)"
proof -
  let ?js = "[map_of [(''object'', ''1P/Halley''), (''e'', ''0.5''), (''i_deg'', ''n/a''),
                (''w_deg'', ''0.5''), (''node_deg'', ''0.5''), (''q_au_1'', ''0.5''),
                (''q_au_2'', ''0.5''), (''p_yr'', ''0.5''), (''moid_au'', ''0.5''),
                (''epoch_tdb'', ''0.5'')],
        map_of [(''object'', ''C/X''), (''e'', ''0.5'')]]"
  let ?p = "(\<lambda>s. if s = ''0.5'' then Some (Finite (1 / 2)) else None)"
  have cols: "\<forall>c \<in> set (numeric_columns @ [''epoch_tdb'']). has_column ?js c"
    by (simp add: numeric_columns_def has_column_def)
  then have "list_all (has_column ?js) (numeric_columns @ [''epoch_tdb''])"
    by (simp only: list_all_iff)
  moreover from fetch_isolates_fields [OF cols, of ?p]
  obtain df where df: "fetch_comet_data ?p 200 ?js = Inr df" "length df = length ?js"
    and cells: "\<forall>k<length ?js.
               col_e (df ! k) = to_numeric ?p ((?js ! k) ''e'') \<and>
               i_deg (df ! k) = to_numeric ?p ((?js ! k) ''i_deg'') \<and>
               w_deg (df ! k) = to_numeric ?p ((?js ! k) ''w_deg'') \<and>
               node_deg (df ! k) = to_numeric ?p ((?js ! k) ''node_deg'') \<and>
               q_au_1 (df ! k) = to_numeric ?p ((?js ! k) ''q_au_1'') \<and>
               q_au_2 (df ! k) = to_numeric ?p ((?js ! k) ''q_au_2'') \<and>
               p_yr (df ! k) = to_numeric ?p ((?js ! k) ''p_yr'') \<and>
               moid_au (df ! k) = to_numeric ?p ((?js ! k) ''moid_au'') \<and>
               epoch_tdb (df ! k) = to_numeric ?p ((?js ! k) ''epoch_tdb'')"
    by blast
  from cells have "col_e (df ! 0) = Finite (1 / 2)" "i_deg (df ! 0) = NaN"
    by (simp_all add: to_numeric_def)
  moreover from cells have "col_e (df ! 1) = Finite (1 / 2) \<and> q_au_1 (df ! 1) = NaN"
    by (simp add: to_numeric_def)
  moreover have "to_numeric ?p (Some ''n/a'') = NaN"
    using fetch_isolates_fields [OF cols, where parse = ?p and s = "''n/a''",
        THEN conjunct2, THEN conjunct2, THEN conjunct1]
    by simp
  moreover have "to_numeric ?p (Some ''0.5'') = Finite (1 / 2)"
    using fetch_isolates_fields [OF cols, where parse = ?p and s = "''0.5''"
        and v = "Finite (1 / 2)",
        THEN conjunct2, THEN conjunct2, THEN conjunct2, THEN conjunct1]
    by simp
  ultimately show ?thesis
    using df by simp
qed

section \<open>The sampled orbit\<close>



































end
